theory Spec2Isabelle
  imports Complex_Main "HOL-Library.AList"
begin

section \<open>Data model of Chart.tsx\<close>

text \<open>
  A JavaScript \<open>number\<close> that the program reads (quantity, close, timestamp, price) is
  a finite rational, and the arithmetic of the model is exact. The program computes in
  binary64: it rounds a sum, a difference or a product that is not a binary64 number,
  and it has NaN and the infinities, which the model has not among its inputs. The two
  agree as long as every result is a binary64 number (\<open>binary64\<close> below); a
  property that depends on the result of an operation is therefore stated for the runs
  in which that operation does not round (\<open>exactKeys\<close>, \<open>exactShares\<close>,
  \<open>exactValues\<close> below).
  A number that the program computes and that may be NaN is a \<open>rat option\<close>, with
  \<open>None\<close> for NaN. The optional \<open>positionAveragePrice\<close> is \<open>None\<close> where the
  field is absent and \<open>Some None\<close> where it is \<open>null\<close>.
\<close>

datatype Action = B | S

record Transaction =
  action :: Action
  date :: string
  price :: rat
  quantity :: rat
  positionAveragePrice :: "rat option option"

record PriceData =
  close :: rat
  timestamp :: rat

text \<open>
  \<open>StockPriceData\<close> is an object used as a dictionary. The program only reads it through
  \<open>Object.entries\<close>, so it is modelled by the list of entries in the order in which
  \<open>Object.entries\<close> yields them: keys that are array indices first, ascending, then
  the other keys in the order of their insertion. Keys are distinct in a real object;
  the program does not read them.
\<close>

type_synonym StockPriceData = "(string \<times> PriceData) list"

record PortfolioValueData =
  date :: string
  "value" :: "rat option"

datatype Error = RangeError

section \<open>The built-ins of the runtime that the program calls\<close>

subsection \<open>Date: time values, calendar fields and \<open>toISOString\<close>\<close>

definition msPerDay :: int where
  "msPerDay = 86400000"

text \<open>\<open>new Date(v)\<close> for a number \<open>v\<close>: the time value is \<open>TimeClip v\<close>, NaN
  beyond 8.64e15 milliseconds from the epoch, and truncated toward zero otherwise.\<close>

definition TimeClip :: "rat \<Rightarrow> int option" where
  "TimeClip t =
     (if \<bar>t\<bar> > 8640000000000000 then None
      else Some (if 0 \<le> t then \<lfloor>t\<rfloor> else - \<lfloor>- t\<rfloor>))"

text \<open>
  The calendar, as ECMAScript defines it (Day, DayFromYear, YearFromTime, InLeapYear,
  MonthFromTime, DateFromTime), here on day numbers: the day number of a time value,
  the day number of 1 January of a year, the year of a day (the largest year that
  starts on or before the day, found from an estimate that is off by one at most),
  1 or 0 for a leap year or not, the days of the year before a month (months count
  from 0), and the month and the day of the month of a day.
\<close>

definition Day :: "int \<Rightarrow> int" where
  "Day t = t div msPerDay"

definition DayFromYear :: "int \<Rightarrow> int" where
  "DayFromYear y =
     365 * (y - 1970) + (y - 1969) div 4 - (y - 1901) div 100 + (y - 1601) div 400"

definition YearFromDay :: "int \<Rightarrow> int" where
  "YearFromDay day =
     (let y = 1970 + (400 * day) div 146097
      in if day < DayFromYear y then y - 1
         else if DayFromYear (y + 1) \<le> day then y + 1
         else y)"

definition InLeapYear :: "int \<Rightarrow> int" where
  "InLeapYear y =
     (if y mod 400 = 0 then 1 else if y mod 100 = 0 then 0 else if y mod 4 = 0 then 1 else 0)"

definition DaysBeforeMonth :: "int \<Rightarrow> nat \<Rightarrow> int" where
  "DaysBeforeMonth leap m =
     [0, 31, 59, 90, 120, 151, 181, 212, 243, 273, 304, 334, 365] ! m
     + (if 2 \<le> m then leap else 0)"

definition DayWithinYear :: "int \<Rightarrow> int" where
  "DayWithinYear day = day - DayFromYear (YearFromDay day)"

definition MonthFromDay :: "int \<Rightarrow> nat" where
  "MonthFromDay day =
     (let d = DayWithinYear day; leap = InLeapYear (YearFromDay day)
      in if d < 31 then 0
         else if d < 59 + leap then 1
         else if d < 90 + leap then 2
         else if d < 120 + leap then 3
         else if d < 151 + leap then 4
         else if d < 181 + leap then 5
         else if d < 212 + leap then 6
         else if d < 243 + leap then 7
         else if d < 273 + leap then 8
         else if d < 304 + leap then 9
         else if d < 334 + leap then 10
         else 11)"

definition DateFromDay :: "int \<Rightarrow> int" where
  "DateFromDay day =
     DayWithinYear day
     - DaysBeforeMonth (InLeapYear (YearFromDay day)) (MonthFromDay day) + 1"

fun digits :: "nat \<Rightarrow> nat \<Rightarrow> string" where
  "digits 0 n = []"
| "digits (Suc w) n = digits w (n div 10) @ [''0123456789'' ! (n mod 10)]"

definition yearString :: "int \<Rightarrow> string" where
  "yearString y =
     (if 0 \<le> y \<and> y \<le> 9999 then digits 4 (nat y)
      else (if y < 0 then ''-'' else ''+'') @ digits 6 (nat \<bar>y\<bar>))"

text \<open>The calendar date of a day number as \<open>toISOString\<close> prints it: \<open>YYYY-MM-DD\<close>,
  with a sign and six digits for a year outside 0 to 9999.\<close>

definition isoDate :: "int \<Rightarrow> string" where
  "isoDate day =
     yearString (YearFromDay day) @ ''-'' @ digits 2 (Suc (MonthFromDay day)) @ ''-'' @
     digits 2 (nat (DateFromDay day))"

definition isoTime :: "int \<Rightarrow> string" where
  "isoTime msInDay =
     digits 2 (nat (msInDay div 3600000)) @ '':'' @
     digits 2 (nat (msInDay div 60000 mod 60)) @ '':'' @
     digits 2 (nat (msInDay div 1000 mod 60)) @ ''.'' @
     digits 3 (nat (msInDay mod 1000))"

text \<open>\<open>Date.prototype.toISOString\<close> on a time value; it throws a RangeError on an
  invalid date (time value NaN).\<close>

definition toISOString :: "int option \<Rightarrow> Error + string" where
  "toISOString tv =
     (case tv of
        None \<Rightarrow> Inl RangeError
      | Some t \<Rightarrow> Inr (isoDate (Day t) @ ''T'' @ isoTime (t mod msPerDay) @ ''Z''))"

subsection \<open>Date parsing\<close>

text \<open>
  \<open>new Date(s).getTime()\<close> for a string \<open>s\<close> is \<open>Date.parse s\<close>: the time value, or
  NaN (\<open>None\<close>) when the string is not recognised. ECMAScript fixes the result on the
  ISO format only; what else is recognised is left to the engine. The parser is
  therefore a parameter of the model, of this type.
\<close>

type_synonym DateParse = "string \<Rightarrow> int option"

text \<open>An instance for running the model: a parser that recognises exactly
  \<open>YYYY-MM-DD\<close> and \<open>YYYY-MM-DDTHH:mm:ss.sssZ\<close> for dates that exist.\<close>

definition digitValue :: "char \<Rightarrow> nat option" where
  "digitValue c =
     (let n = (of_char c :: nat) in if 48 \<le> n \<and> n \<le> 57 then Some (n - 48) else None)"

fun numberOf :: "nat \<Rightarrow> string \<Rightarrow> nat option" where
  "numberOf acc [] = Some acc"
| "numberOf acc (c # cs) =
     (case digitValue c of None \<Rightarrow> None | Some v \<Rightarrow> numberOf (10 * acc + v) cs)"

definition parseDatePart :: "string \<Rightarrow> int option" where
  "parseDatePart s =
     (if length s = 10 \<and> s ! 4 = CHR ''-'' \<and> s ! 7 = CHR ''-'' then
        (case (numberOf 0 (take 4 s), numberOf 0 (take 2 (drop 5 s)), numberOf 0 (drop 8 s)) of
           (Some y, Some m, Some d) \<Rightarrow>
             (let leap = InLeapYear (int y)
              in if 1 \<le> m \<and> m \<le> 12 \<and> 1 \<le> d
                    \<and> int d \<le> DaysBeforeMonth leap m - DaysBeforeMonth leap (m - 1)
                 then Some (DayFromYear (int y) + DaysBeforeMonth leap (m - 1) + int d - 1)
                 else None)
         | _ \<Rightarrow> None)
      else None)"

definition parseTimePart :: "string \<Rightarrow> int option" where
  "parseTimePart s =
     (if length s = 14 \<and> s ! 0 = CHR ''T'' \<and> s ! 3 = CHR '':'' \<and> s ! 6 = CHR '':''
         \<and> s ! 9 = CHR ''.'' \<and> s ! 13 = CHR ''Z'' then
        (case (numberOf 0 (take 2 (drop 1 s)), numberOf 0 (take 2 (drop 4 s)),
               numberOf 0 (take 2 (drop 7 s)), numberOf 0 (take 3 (drop 10 s))) of
           (Some h, Some mi, Some sec, Some ms) \<Rightarrow>
             (if h < 24 \<and> mi < 60 \<and> sec < 60
              then Some (int h * 3600000 + int mi * 60000 + int sec * 1000 + int ms)
              else None)
         | _ \<Rightarrow> None)
      else None)"

definition isoParse :: DateParse where
  "isoParse s =
     (case parseDatePart (take 10 s) of
        None \<Rightarrow> None
      | Some z \<Rightarrow>
          (if length s = 10 then Some (z * msPerDay)
           else (case parseTimePart (drop 10 s) of
                   None \<Rightarrow> None
                 | Some t \<Rightarrow> Some (z * msPerDay + t))))"

subsection \<open>\<open>Array.prototype.sort\<close> with a comparator\<close>

text \<open>
  The comparator's result is a number or NaN (\<open>None\<close>); the sort reads NaN as 0.
  With a consistent comparator every engine returns the same list, the stable sort.
  With an inconsistent one (NaN against two dates that differ) ECMAScript leaves the
  order to the engine. The model then gives the order of stable insertion. On an
  array in which no element compares less than the one before it, that is the array
  itself, and it is what V8 returns as well (its sort finds the array to be one
  ascending run); on other arrays the two orders may differ. A property that depends
  on the order is therefore stated for dates that all parse, and an example with a date
  that does not parse is an array of the first kind.
\<close>

definition SortCompare :: "('a \<Rightarrow> 'a \<Rightarrow> int option) \<Rightarrow> 'a \<Rightarrow> 'a \<Rightarrow> int" where
  "SortCompare comparefn x y = (case comparefn x y of None \<Rightarrow> 0 | Some v \<Rightarrow> v)"

fun insertSorted :: "('a \<Rightarrow> 'a \<Rightarrow> int option) \<Rightarrow> 'a \<Rightarrow> 'a list \<Rightarrow> 'a list" where
  "insertSorted comparefn x [] = [x]"
| "insertSorted comparefn x (y # ys) =
     (if SortCompare comparefn x y > 0 then y # insertSorted comparefn x ys
      else x # y # ys)"

definition sortArray :: "('a \<Rightarrow> 'a \<Rightarrow> int option) \<Rightarrow> 'a list \<Rightarrow> 'a list" where
  "sortArray comparefn xs = foldr (insertSorted comparefn) xs []"

subsection \<open>\<open>Set\<close>, and plain objects as dictionaries\<close>

text \<open>\<open>new Set(xs)\<close> adds the elements in order and keeps the first of equal ones;
  \<open>Array.from\<close> lists them in insertion order.\<close>

definition setAdd :: "'a list \<Rightarrow> 'a \<Rightarrow> 'a list" where
  "setAdd s x = (if x \<in> set s then s else s @ [x])"

definition newSet :: "'a list \<Rightarrow> 'a list" where
  "newSet xs = foldl setAdd [] xs"

text \<open>
  \<open>formattedStockPrices\<close> starts as \<open>{}\<close>. Its own properties are an association list
  in insertion order: \<open>obj[k] = v\<close> is \<open>AList.update k v obj\<close> (in place for a key
  that is there, at the end otherwise), \<open>Object.keys\<close> is \<open>map fst\<close>. Reading
  \<open>obj[k]\<close> follows the prototype chain: where \<open>obj\<close> has no own property \<open>k\<close>, the
  properties of \<open>Object.prototype\<close> are found, and only then \<open>undefined\<close>.
\<close>

definition ObjectPrototypeKeys :: "string list" where
  "ObjectPrototypeKeys =
     [''constructor'', ''hasOwnProperty'', ''isPrototypeOf'', ''propertyIsEnumerable'',
      ''toLocaleString'', ''toString'', ''valueOf'', ''__proto__'',
      ''__defineGetter__'', ''__defineSetter__'', ''__lookupGetter__'', ''__lookupSetter__'']"

datatype JSValue = Undefined | Number rat | ObjectPrototypeMember

definition getProperty :: "(string \<times> rat) list \<Rightarrow> string \<Rightarrow> JSValue" where
  "getProperty obj k =
     (case map_of obj k of
        Some v \<Rightarrow> Number v
      | None \<Rightarrow> if k \<in> set ObjectPrototypeKeys then ObjectPrototypeMember else Undefined)"

text \<open>\<open>n * v\<close> for a number \<open>n\<close>: a function or an object as \<open>v\<close> converts to NaN.\<close>

definition times :: "rat \<Rightarrow> JSValue \<Rightarrow> rat option" where
  "times n v = (case v of Number p \<Rightarrow> Some (n * p) | _ \<Rightarrow> None)"

section \<open>The program\<close>

subsection \<open>\<open>formatDate\<close>\<close>

definition formatDate :: "rat \<Rightarrow> Error + string" where
  "formatDate epoch =
     (case toISOString (TimeClip (epoch * 1000)) of
        Inl e \<Rightarrow> Inl e
      | Inr s \<Rightarrow> Inr (takeWhile (\<lambda>c. c \<noteq> CHR ''T'') s))"

subsection \<open>\<open>calculatePortfolioValue\<close>\<close>

text \<open>The comparator \<open>(a, b) => new Date(a).getTime() - new Date(b).getTime()\<close>.\<close>

definition compareDates :: "DateParse \<Rightarrow> string \<Rightarrow> string \<Rightarrow> int option" where
  "compareDates parse a b =
     (case (parse a, parse b) of (Some x, Some y) \<Rightarrow> Some (x - y) | _ \<Rightarrow> None)"

text \<open>The loop over \<open>Object.entries(stockPrices)\<close> that fills
  \<open>formattedStockPrices\<close>; an exception of \<open>formatDate\<close> ends it.\<close>

fun formatStockPrices ::
  "StockPriceData \<Rightarrow> (string \<times> rat) list \<Rightarrow> Error + (string \<times> rat) list" where
  "formatStockPrices [] formattedStockPrices = Inr formattedStockPrices"
| "formatStockPrices ((epoch, priceData) # rest) formattedStockPrices =
     (case formatDate (timestamp priceData) of
        Inl e \<Rightarrow> Inl e
      | Inr dateKey \<Rightarrow>
          formatStockPrices rest (AList.update dateKey (close priceData) formattedStockPrices))"

text \<open>The inner loop body: one transaction of the day.\<close>

definition applyTransaction :: "rat \<Rightarrow> Transaction \<Rightarrow> rat" where
  "applyTransaction currentShares transaction =
     (if action transaction = B then currentShares + quantity transaction
      else if action transaction = S then currentShares - quantity transaction
      else currentShares)"

text \<open>The outer loop body: one date of \<open>sortedDates\<close>, on the state
  \<open>(currentShares, portfolioValues)\<close>.\<close>

definition visitDate ::
  "Transaction list \<Rightarrow> (string \<times> rat) list \<Rightarrow> rat \<times> PortfolioValueData list \<Rightarrow> string
     \<Rightarrow> rat \<times> PortfolioValueData list" where
  "visitDate sortedTransactions formattedStockPrices st d =
     (let currentShares =
            foldl applyTransaction (fst st)
              (filter (\<lambda>t. Transaction.date t = d) sortedTransactions);
          stockPrice = getProperty formattedStockPrices d
      in if stockPrice \<noteq> Undefined \<and> currentShares > 0
         then (currentShares,
               snd st @ [\<lparr>date = d, value = times currentShares stockPrice\<rparr>])
         else (currentShares, snd st))"

definition sortTransactions :: "DateParse \<Rightarrow> Transaction list \<Rightarrow> Transaction list" where
  "sortTransactions parse transactions =
     sortArray (\<lambda>a b. compareDates parse (Transaction.date a) (Transaction.date b)) transactions"

definition sortDates :: "DateParse \<Rightarrow> Transaction list \<Rightarrow> (string \<times> rat) list \<Rightarrow> string list" where
  "sortDates parse sortedTransactions formattedStockPrices =
     sortArray (compareDates parse)
       (newSet (map Transaction.date sortedTransactions @ map fst formattedStockPrices))"

definition calculatePortfolioValue ::
  "DateParse \<Rightarrow> Transaction list \<Rightarrow> StockPriceData \<Rightarrow> Error + PortfolioValueData list" where
  "calculatePortfolioValue parse transactions stockPrices =
     (let sortedTransactions = sortTransactions parse transactions
      in case formatStockPrices stockPrices [] of
           Inl e \<Rightarrow> Inl e
         | Inr formattedStockPrices \<Rightarrow>
             Inr (snd (foldl (visitDate sortedTransactions formattedStockPrices) (0, [])
                         (sortDates parse sortedTransactions formattedStockPrices))))"

subsection \<open>\<open>calculatePortfolioValue\<close> on a store\<close>

text \<open>
  The same function with the arrays and objects it is handed held in a store, so that
  what \<open>sort\<close> overwrites is visible: \<open>sort\<close> sorts the array at the address it is
  called on, in place. An address is an index into the store; allocation appends, so a
  new address is one that no earlier reference holds. \<open>[...transactions]\<close> allocates a
  copy. The arrays and objects that the function builds and keeps to itself
  (\<open>formattedStockPrices\<close>, \<open>allDates\<close>, \<open>sortedDates\<close>, \<open>portfolioValues\<close>) stay
  values of the model. The elements of \<open>transactions\<close> are only read.
\<close>

record Store =
  arrays :: "Transaction list list"
  objects :: "StockPriceData list"

definition spread :: "Store \<Rightarrow> nat \<Rightarrow> nat \<times> Store" where
  "spread h a = (length (arrays h), h\<lparr>arrays := arrays h @ [arrays h ! a]\<rparr>)"

definition sortInPlace :: "(Transaction \<Rightarrow> Transaction \<Rightarrow> int option) \<Rightarrow> nat \<Rightarrow> Store \<Rightarrow> Store" where
  "sortInPlace comparefn a h = h\<lparr>arrays := (arrays h)[a := sortArray comparefn (arrays h ! a)]\<rparr>"

definition calculatePortfolioValueOn ::
  "DateParse \<Rightarrow> Store \<Rightarrow> nat \<Rightarrow> nat \<Rightarrow> Store \<times> (Error + PortfolioValueData list)" where
  "calculatePortfolioValueOn parse h transactions stockPrices =
     (case spread h transactions of
        (sortedTransactions, h1) \<Rightarrow>
          (let h2 = sortInPlace
                      (\<lambda>a b. compareDates parse (Transaction.date a) (Transaction.date b))
                      sortedTransactions h1
           in (h2,
               case formatStockPrices (objects h2 ! stockPrices) [] of
                 Inl e \<Rightarrow> Inl e
               | Inr formattedStockPrices \<Rightarrow>
                   Inr (snd (foldl (visitDate (arrays h2 ! sortedTransactions) formattedStockPrices)
                               (0, [])
                               (sortDates parse (arrays h2 ! sortedTransactions)
                                  formattedStockPrices))))))"

subsection \<open>\<open>PortfolioValueChart\<close>: the two effects\<close>

definition GOOGL :: "Transaction list" where
  "GOOGL =
     [\<lparr>action = B, date = ''2021-01-04'', price = 8631 / 100, quantity = 5,
        positionAveragePrice = Some None\<rparr>,
      \<lparr>action = B, date = ''2022-01-04'', price = 1444 / 10, quantity = 5,
        positionAveragePrice = Some None\<rparr>,
      \<lparr>action = S, date = ''2023-07-26'', price = 12927 / 100, quantity = 5,
        positionAveragePrice = Some (Some (115355 / 1000))\<rparr>]"

text \<open>How the request of \<open>fetchStockPrices\<close> ends: \<open>fetch\<close> rejects, or it resolves
  to a response with its \<open>ok\<close> flag and status, whose \<open>json()\<close> rejects or resolves.\<close>

datatype Body = Unparsable | Json StockPriceData

datatype FetchOutcome = Rejected | Response bool nat Body

record ChartState =
  portfolioData :: "PortfolioValueData list"
  stockPrices :: "StockPriceData option"
  console :: "string list"

definition initialState :: ChartState where
  "initialState = \<lparr>portfolioData = [], stockPrices = None, console = []\<rparr>"

definition consoleError :: "ChartState \<Rightarrow> ChartState" where
  "consoleError st = st\<lparr>console := console st @ [''Error fetching stock prices:'']\<rparr>"

text \<open>The first effect, once the request has ended: the \<open>try\<close> block and its
  \<open>catch\<close>.\<close>

definition fetchStockPrices :: "FetchOutcome \<Rightarrow> ChartState \<Rightarrow> ChartState" where
  "fetchStockPrices outcome st =
     (case outcome of
        Rejected \<Rightarrow> consoleError st
      | Response ok status body \<Rightarrow>
          (if \<not> ok then consoleError st
           else (case body of
                   Unparsable \<Rightarrow> consoleError st
                 | Json data \<Rightarrow> st\<lparr>stockPrices := Some data\<rparr>)))"

text \<open>The second effect; an exception of \<open>calculatePortfolioValue\<close> is not caught.\<close>

definition derivePortfolio :: "DateParse \<Rightarrow> ChartState \<Rightarrow> Error + ChartState" where
  "derivePortfolio parse st =
     (case stockPrices st of
        None \<Rightarrow> Inr st
      | Some prices \<Rightarrow>
          (case calculatePortfolioValue parse GOOGL prices of
             Inl e \<Rightarrow> Inl e
           | Inr portfolioValues \<Rightarrow> Inr (st\<lparr>portfolioData := portfolioValues\<rparr>)))"

text \<open>The component from mount to rest: both effects run after the first render (the
  second finds no prices); when the request has ended, the second effect runs again if
  \<open>stockPrices\<close> has changed.\<close>

definition runChart :: "DateParse \<Rightarrow> FetchOutcome \<Rightarrow> Error + ChartState" where
  "runChart parse outcome =
     (case derivePortfolio parse initialState of
        Inl e \<Rightarrow> Inl e
      | Inr st0 \<Rightarrow>
          (let st1 = fetchStockPrices outcome st0
           in if stockPrices st1 \<noteq> stockPrices st0 then derivePortfolio parse st1 else Inr st1))"

section \<open>Notions used to state the properties\<close>

definition signedQuantity :: "Transaction \<Rightarrow> rat" where
  "signedQuantity t = (case action t of B \<Rightarrow> quantity t | S \<Rightarrow> - quantity t)"

text \<open>The change of the share count on a day: the transactions whose \<open>date\<close> string
  equals the day's string.\<close>

definition dayDelta :: "Transaction list \<Rightarrow> string \<Rightarrow> rat" where
  "dayDelta transactions d =
     sum_list (map signedQuantity (filter (\<lambda>t. Transaction.date t = d) transactions))"


text \<open>The same walk with the lookup that the program makes, \<open>getProperty\<close>.\<close>

fun walkFrom ::
  "Transaction list \<Rightarrow> (string \<times> rat) list \<Rightarrow> rat \<Rightarrow> string list \<Rightarrow> PortfolioValueData list" where
  "walkFrom transactions obj cs [] = []"
| "walkFrom transactions obj cs (d # ds) =
     (let cs' = cs + dayDelta transactions d
      in (if getProperty obj d \<noteq> Undefined \<and> cs' > 0
          then [\<lparr>date = d, value = times cs' (getProperty obj d)\<rparr>] else [])
         @ walkFrom transactions obj cs' ds)"

text \<open>The days that \<open>calculatePortfolioValue\<close> walks, in the order of the walk, and
  the value of \<open>currentShares\<close> when the walk has visited day \<open>d\<close>.\<close>

definition walkedDays :: "DateParse \<Rightarrow> Transaction list \<Rightarrow> (string \<times> rat) list \<Rightarrow> string list" where
  "walkedDays parse transactions formattedStockPrices =
     sortDates parse (sortTransactions parse transactions) formattedStockPrices"



text \<open>What ECMAScript fixes of \<open>Date.parse\<close> on the day keys of a price mapping: a
  date-only ISO string is the midnight, UTC, that starts its day.\<close>

definition parsesDayKeys :: "DateParse \<Rightarrow> StockPriceData \<Rightarrow> bool" where
  "parsesDayKeys parse prices =
     list_all (\<lambda>(epoch, priceData).
        case TimeClip (timestamp priceData * 1000) of
          None \<Rightarrow> True
        | Some t \<Rightarrow> parse (isoDate (Day t)) = Some (Day t * msPerDay)) prices"


text \<open>Every transaction date parses; no transaction date names a property of
  \<open>Object.prototype\<close>.\<close>

definition datesParse :: "DateParse \<Rightarrow> Transaction list \<Rightarrow> bool" where
  "datesParse parse transactions =
     list_all (\<lambda>t. parse (Transaction.date t) \<noteq> None) transactions"

definition noInheritedDates :: "Transaction list \<Rightarrow> bool" where
  "noInheritedDates transactions =
     list_all (\<lambda>t. Transaction.date t \<notin> set ObjectPrototypeKeys) transactions"

text \<open>
  The finite numbers of binary64: \<open>m * 2 ^ k\<close> with \<open>k\<close> up to 971, and
  \<open>m / 2 ^ k\<close> with \<open>k\<close> up to 1074, for an integer \<open>m\<close> of magnitude below
  \<open>2 ^ 53\<close>. An addition, subtraction or multiplication of the program whose exact
  result is such a number returns it; any other result is rounded.
\<close>

definition binary64 :: "rat \<Rightarrow> bool" where
  "binary64 q =
     (\<exists>m \<in> {- (2 ^ 53) <..< 2 ^ 53 :: int}.
        (\<exists>k \<in> {0 .. 971 :: nat}. q = of_int m * 2 ^ k)
        \<or> (\<exists>k \<in> {0 .. 1074 :: nat}. q = of_int m / 2 ^ k))"

text \<open>No product \<open>timestamp * 1000\<close> of \<open>formatDate\<close> is rounded.\<close>

definition exactKeys :: "StockPriceData \<Rightarrow> bool" where
  "exactKeys prices =
     list_all (\<lambda>(epoch, priceData). binary64 (timestamp priceData * 1000)) prices"

text \<open>No \<open>+=\<close> or \<open>-=\<close> on \<open>currentShares\<close> is rounded: the transactions in the
  order in which the walk applies them (day after day, and within a day in the order of
  \<open>sortedTransactions\<close>), and the share count after each of them.\<close>

fun exactSums :: "rat \<Rightarrow> Transaction list \<Rightarrow> bool" where
  "exactSums currentShares [] = True"
| "exactSums currentShares (t # ts) =
     (binary64 (applyTransaction currentShares t)
      \<and> exactSums (applyTransaction currentShares t) ts)"

definition appliedTransactions ::
  "DateParse \<Rightarrow> Transaction list \<Rightarrow> (string \<times> rat) list \<Rightarrow> Transaction list" where
  "appliedTransactions parse transactions formattedStockPrices =
     concat (map (\<lambda>d. filter (\<lambda>t. Transaction.date t = d) (sortTransactions parse transactions))
               (walkedDays parse transactions formattedStockPrices))"

definition exactShares :: "DateParse \<Rightarrow> Transaction list \<Rightarrow> StockPriceData \<Rightarrow> bool" where
  "exactShares parse transactions prices =
     (case formatStockPrices prices [] of
        Inl e \<Rightarrow> True
      | Inr formattedStockPrices \<Rightarrow>
          exactSums 0 (appliedTransactions parse transactions formattedStockPrices))"



text \<open>Two transaction lists that are equal except in the \<open>price\<close> and
  \<open>positionAveragePrice\<close> fields of their elements.\<close>

definition sameTrades :: "Transaction list \<Rightarrow> Transaction list \<Rightarrow> bool" where
  "sameTrades xs ys =
     list_all2 (\<lambda>a b. action a = action b \<and> Transaction.date a = Transaction.date b
                  \<and> quantity a = quantity b) xs ys"

text \<open>For examples: a transaction with the fields that the program reads.\<close>

definition trade :: "Action \<Rightarrow> string \<Rightarrow> rat \<Rightarrow> Transaction" where
  "trade a d q =
     \<lparr>action = a, date = d, price = 0, quantity = q, positionAveragePrice = None\<rparr>"

section \<open>Properties\<close>

subsection \<open>The calendar\<close>

text \<open>
  The year of a day is the largest year that starts on or before it, as ECMAScript
  defines YearFromTime; the month and the day of the month are in range and give the day
  back; on the years 0 to 9999 the parser of the examples reads every day key as the
  midnight that starts the day, so that day keys are equal only for equal days.
\<close>

lemma div_succ:
  fixes x k :: int
  assumes "1 < k"
  shows "(x + 1) div k = x div k + (if (x + 1) mod k = 0 then 1 else 0)"
proof -
  have x: "x = k * (x div k) + x mod k" by simp
  have r: "0 \<le> x mod k" "x mod k < k" using assms by simp_all
  show ?thesis
  proof (cases "x mod k = k - 1")
    case True
    with x have "x = k * (x div k) + (k - 1)" by simp
    then have e: "x + 1 = k * (x div k + 1) + 0" by (simp add: algebra_simps)
    from assms have "(x + 1) div k = x div k + 1" and "(x + 1) mod k = 0"
      using int_div_pos_eq [OF e] int_mod_pos_eq [OF e] by simp_all
    then show ?thesis by simp
  next
    case False
    with r have lt: "x mod k + 1 < k" by simp
    from x have e: "x + 1 = k * (x div k) + (x mod k + 1)" by simp
    from r lt have "(x + 1) div k = x div k" and "(x + 1) mod k = x mod k + 1"
      using int_div_pos_eq [OF e] int_mod_pos_eq [OF e] by simp_all
    with r show ?thesis by simp
  qed
qed

lemma mod_shift: "(y - k * c) mod k = y mod k" for y k c :: int
proof -
  have "(y - k * c) mod k = (y + k * (- c)) mod k" by simp
  also have "\<dots> = y mod k" by (rule mod_mult_self2)
  finally show ?thesis .
qed

lemma mod_400_100: "y mod 400 = 0 \<Longrightarrow> y mod 100 = 0" for y :: int
proof -
  assume "y mod 400 = 0"
  then have "400 dvd y" by (simp add: dvd_eq_mod_eq_0)
  moreover have "(100::int) dvd 400" by simp
  ultimately have "100 dvd y" by (rule dvd_trans [rotated])
  then show ?thesis by (simp add: dvd_eq_mod_eq_0)
qed

lemma mod_100_4: "y mod 100 = 0 \<Longrightarrow> y mod 4 = 0" for y :: int
proof -
  assume "y mod 100 = 0"
  then have "100 dvd y" by (simp add: dvd_eq_mod_eq_0)
  moreover have "(4::int) dvd 100" by simp
  ultimately have "4 dvd y" by (rule dvd_trans [rotated])
  then show ?thesis by (simp add: dvd_eq_mod_eq_0)
qed

lemma DayFromYear_step: "DayFromYear (y + 1) = DayFromYear y + 365 + InLeapYear y"
proof -
  have a: "(y + 1 - 1969) div 4 = (y - 1969) div 4 + (if y mod 4 = 0 then 1 else 0)"
    using div_succ [of 4 "y - 1969"] mod_shift [of y 4 492] by (simp add: algebra_simps)
  have b: "(y + 1 - 1901) div 100 = (y - 1901) div 100 + (if y mod 100 = 0 then 1 else 0)"
    using div_succ [of 100 "y - 1901"] mod_shift [of y 100 19] by (simp add: algebra_simps)
  have c: "(y + 1 - 1601) div 400 = (y - 1601) div 400 + (if y mod 400 = 0 then 1 else 0)"
    using div_succ [of 400 "y - 1601"] mod_shift [of y 400 4] by (simp add: algebra_simps)
  show ?thesis
    unfolding DayFromYear_def InLeapYear_def a b c
    using mod_400_100 [of y] mod_100_4 [of y] by auto
qed

lemma div_bounds:
  fixes x k :: int
  assumes "0 < k"
  shows "k * (x div k) \<le> x" and "x < k * (x div k) + k"
proof -
  have x: "x = k * (x div k) + x mod k" by simp
  have r: "0 \<le> x mod k" "x mod k < k" using assms by simp_all
  from x r show "k * (x div k) \<le> x" by linarith
  from x r show "x < k * (x div k) + k" by linarith
qed

lemma DayFromYear_linear:
  "400 * DayFromYear y \<le> 146097 * y - 287810501"
  "146097 * y - 287811596 \<le> 400 * DayFromYear y"
proof -
  define a where "a = (y - 1969) div 4"
  define b where "b = (y - 1901) div 100"
  define c where "c = (y - 1601) div 400"
  have a: "4 * a \<le> y - 1969" "y - 1969 < 4 * a + 4"
    using div_bounds [of 4 "y - 1969"] by (simp_all add: a_def)
  have b: "100 * b \<le> y - 1901" "y - 1901 < 100 * b + 100"
    using div_bounds [of 100 "y - 1901"] by (simp_all add: b_def)
  have c: "400 * c \<le> y - 1601" "y - 1601 < 400 * c + 400"
    using div_bounds [of 400 "y - 1601"] by (simp_all add: c_def)
  have D: "400 * DayFromYear y = 146000 * y - 287620000 + 400 * a - 400 * b + 400 * c"
    by (simp add: DayFromYear_def a_def b_def c_def)
  show "400 * DayFromYear y \<le> 146097 * y - 287810501"
    unfolding D using a b c by linarith
  show "146097 * y - 287811596 \<le> 400 * DayFromYear y"
    unfolding D using a b c by linarith
qed

lemma YearFromDay_bounds:
  "DayFromYear (YearFromDay day) \<le> day" "day < DayFromYear (YearFromDay day + 1)"
proof -
  define y where "y = 1970 + (400 * day) div 146097"
  define q where "q = (400 * day) div 146097"
  have q: "146097 * q \<le> 400 * day" "400 * day < 146097 * q + 146097"
    using div_bounds [of 146097 "400 * day"] by (simp_all add: q_def)
  have y: "y = 1970 + q" by (simp add: y_def q_def)
  have Y: "YearFromDay day =
      (if day < DayFromYear y then y - 1 else if DayFromYear (y + 1) \<le> day then y + 1 else y)"
    by (simp add: YearFromDay_def y_def Let_def)
  have "400 * DayFromYear (y - 1) \<le> 146097 * q - 145508"
    using DayFromYear_linear(1) [of "y - 1"] by (simp add: y)
  with q have below: "DayFromYear (y - 1) \<le> day" by linarith
  have "146097 * q + 291688 \<le> 400 * DayFromYear (y + 2)"
    using DayFromYear_linear(2) [of "y + 2"] by (simp add: y)
  with q have above: "day < DayFromYear (y + 2)" by linarith
  show "DayFromYear (YearFromDay day) \<le> day"
    using below by (simp add: Y)
  show "day < DayFromYear (YearFromDay day + 1)"
    using above by (simp add: Y add.commute)
qed

lemma DayFromYear_mono: "y \<le> y' \<Longrightarrow> DayFromYear y \<le> DayFromYear y'"
proof (induction "nat (y' - y)" arbitrary: y')
  case 0
  then show ?case by simp
next
  case (Suc n)
  then have "n = nat ((y' - 1) - y)" and "y \<le> y' - 1" by linarith+
  then have "DayFromYear y \<le> DayFromYear (y' - 1)" by (rule Suc.hyps(1))
  also have "\<dots> \<le> DayFromYear y'"
    using DayFromYear_step [of "y' - 1"] by (simp add: InLeapYear_def)
  finally show ?case .
qed

lemma YearFromDay_unique:
  assumes "DayFromYear y \<le> day" and "day < DayFromYear (y + 1)"
  shows "YearFromDay day = y"
proof (rule ccontr)
  assume ne: "YearFromDay day \<noteq> y"
  note b = YearFromDay_bounds [of day]
  show False
  proof (cases "YearFromDay day < y")
    case True
    then have "DayFromYear (YearFromDay day + 1) \<le> DayFromYear y"
      by (intro DayFromYear_mono) simp
    with b(2) assms(1) show False by simp
  next
    case False
    with ne have "DayFromYear (y + 1) \<le> DayFromYear (YearFromDay day)"
      by (intro DayFromYear_mono) simp
    with b(1) assms(2) show False by simp
  qed
qed

lemma DayWithinYear_bounds:
  "0 \<le> DayWithinYear day" "DayWithinYear day < 365 + InLeapYear (YearFromDay day)"
  using YearFromDay_bounds [of day] DayFromYear_step [of "YearFromDay day"]
  by (simp_all add: DayWithinYear_def)

lemma InLeapYear_cases: "InLeapYear y = 0 \<or> InLeapYear y = 1"
  by (simp add: InLeapYear_def)

lemma month_of_day:
  fixes d leap :: int
  assumes "0 \<le> d" and "d < 365 + leap" and "leap = 0 \<or> leap = 1"
  defines "m \<equiv> (if d < 31 then 0
         else if d < 59 + leap then 1
         else if d < 90 + leap then 2
         else if d < 120 + leap then 3
         else if d < 151 + leap then 4
         else if d < 181 + leap then 5
         else if d < 212 + leap then 6
         else if d < 243 + leap then 7
         else if d < 273 + leap then 8
         else if d < 304 + leap then 9
         else if d < 334 + leap then 10
         else (11::nat))"
  shows "m \<le> 11" and "DaysBeforeMonth leap m \<le> d" and "d < DaysBeforeMonth leap (Suc m)"
    and "DaysBeforeMonth leap (Suc m) - DaysBeforeMonth leap m \<le> 31"
  using assms(1-3) unfolding m_def DaysBeforeMonth_def
  by (auto split: if_splits)

lemma MonthFromDay_bounds:
  "MonthFromDay day \<le> 11"
  "DaysBeforeMonth (InLeapYear (YearFromDay day)) (MonthFromDay day) \<le> DayWithinYear day"
  "DayWithinYear day < DaysBeforeMonth (InLeapYear (YearFromDay day)) (Suc (MonthFromDay day))"
  "DaysBeforeMonth (InLeapYear (YearFromDay day)) (Suc (MonthFromDay day))
     - DaysBeforeMonth (InLeapYear (YearFromDay day)) (MonthFromDay day) \<le> 31"
  using month_of_day [OF DayWithinYear_bounds InLeapYear_cases, of day]
  by (simp_all add: MonthFromDay_def Let_def)

lemma DateFromDay_bounds:
  "1 \<le> DateFromDay day"
  "DateFromDay day \<le> DaysBeforeMonth (InLeapYear (YearFromDay day)) (Suc (MonthFromDay day))
     - DaysBeforeMonth (InLeapYear (YearFromDay day)) (MonthFromDay day)"
  "DateFromDay day \<le> 31"
  using MonthFromDay_bounds [of day] by (simp_all add: DateFromDay_def)

lemma day_of_calendar_fields:
  "DayFromYear (YearFromDay day)
     + DaysBeforeMonth (InLeapYear (YearFromDay day)) (MonthFromDay day)
     + DateFromDay day - 1 = day"
  by (simp add: DateFromDay_def DayWithinYear_def)

lemma YearFromDay_range:
  assumes "DayFromYear a \<le> day" and "day < DayFromYear b"
  shows "a \<le> YearFromDay day" and "YearFromDay day < b"
proof -
  note y = YearFromDay_bounds [of day]
  show "a \<le> YearFromDay day"
  proof (rule ccontr)
    assume "\<not> a \<le> YearFromDay day"
    then have "DayFromYear (YearFromDay day + 1) \<le> DayFromYear a"
      by (intro DayFromYear_mono) simp
    with y(2) assms(1) show False by simp
  qed
  show "YearFromDay day < b"
  proof (rule ccontr)
    assume "\<not> YearFromDay day < b"
    then have "DayFromYear b \<le> DayFromYear (YearFromDay day)"
      by (intro DayFromYear_mono) simp
    with y(1) assms(2) show False by simp
  qed
qed

lemma year_range_days: "DayFromYear 0 = - 719528" "DayFromYear 10000 = 2932897"
  by (simp_all add: DayFromYear_def)

lemma length_digits: "length (digits w n) = w"
  by (induction w arbitrary: n) simp_all

lemma digitValue_digit: "k < 10 \<Longrightarrow> digitValue (''0123456789'' ! k) = Some k"
proof -
  assume "k < 10"
  then have "k \<in> {0, 1, 2, 3, 4, 5, 6, 7, 8, 9}" by auto
  then show ?thesis by (auto simp: digitValue_def)
qed

lemma numberOf_append:
  "numberOf acc (xs @ ys) = (case numberOf acc xs of None \<Rightarrow> None | Some v \<Rightarrow> numberOf v ys)"
  by (induction xs arbitrary: acc) (simp_all split: option.splits)

lemma numberOf_digits: "numberOf acc (digits w n) = Some (acc * 10 ^ w + n mod 10 ^ w)"
proof (induction w arbitrary: n)
  case 0
  show ?case by simp
next
  case (Suc w)
  have d: "digitValue (''0123456789'' ! (n mod 10)) = Some (n mod 10)"
    by (rule digitValue_digit) simp
  have "n mod (10 * 10 ^ w) = 10 * (n div 10 mod 10 ^ w) + n mod 10"
    by (rule mod_mult2_eq)
  then show ?case
    by (simp add: numberOf_append Suc.IH d algebra_simps)
qed

lemma numberOf_digits_small: "n < 10 ^ w \<Longrightarrow> numberOf 0 (digits w n) = Some n"
  by (simp add: numberOf_digits)

lemma isoParse_isoDate:
  assumes "DayFromYear 0 \<le> day" and "day < DayFromYear 10000"
  shows "isoParse (isoDate day) = Some (day * msPerDay)"
proof -
  define y where "y = nat (YearFromDay day)"
  define m where "m = Suc (MonthFromDay day)"
  define d where "d = nat (DateFromDay day)"
  define leap where "leap = InLeapYear (YearFromDay day)"
  from YearFromDay_range [OF assms] have yr: "0 \<le> YearFromDay day" "YearFromDay day < 10000"
    by simp_all
  then have y: "int y = YearFromDay day" "y < 10 ^ 4" by (simp_all add: y_def)
  from MonthFromDay_bounds(1) [of day] have m: "1 \<le> m" "m \<le> 12" "m < 10 ^ 2"
    by (simp_all add: m_def)
  from DateFromDay_bounds [of day] have dd: "int d = DateFromDay day" "1 \<le> d" "d < 10 ^ 2"
    and dm: "int d \<le> DaysBeforeMonth leap m - DaysBeforeMonth leap (m - 1)"
    by (simp_all add: d_def m_def leap_def)
  have s: "isoDate day = digits 4 y @ ''-'' @ digits 2 m @ ''-'' @ digits 2 d"
    using yr by (simp add: isoDate_def yearString_def y_def m_def d_def)
  have l4: "length (digits 4 y) = 4" and l2: "length (digits 2 m) = 2"
    and l2': "length (digits 2 d) = 2"
    by (rule length_digits)+
  have len: "length (isoDate day) = 10" by (simp add: s l4 l2 l2')
  have parts: "isoDate day ! 4 = CHR ''-''" "isoDate day ! 7 = CHR ''-''"
    "take 4 (isoDate day) = digits 4 y" "take 2 (drop 5 (isoDate day)) = digits 2 m"
    "drop 8 (isoDate day) = digits 2 d"
    unfolding s using l4 l2 l2' by (simp_all add: nth_append)
  have num: "numberOf 0 (digits 4 y) = Some y" "numberOf 0 (digits 2 m) = Some m"
    "numberOf 0 (digits 2 d) = Some d"
    using y(2) m(3) dd(3) by (simp_all add: numberOf_digits_small)
  have "DayFromYear (int y) + DaysBeforeMonth leap (m - 1) + int d - 1 = day"
    using day_of_calendar_fields [of day] by (simp add: y dd m_def leap_def)
  then have "parseDatePart (isoDate day) = Some day"
    using m dd dm by (simp add: parseDatePart_def len parts num Let_def y leap_def)
  then show ?thesis by (simp add: isoParse_def len)
qed

lemma isoDate_inject:
  assumes "DayFromYear 0 \<le> a" "a < DayFromYear 10000"
    and "DayFromYear 0 \<le> b" "b < DayFromYear 10000"
  shows "(isoDate a = isoDate b) = (a = b)"
proof
  assume "isoDate a = isoDate b"
  then have "isoParse (isoDate a) = isoParse (isoDate b)" by simp
  then have "a * msPerDay = b * msPerDay"
    using isoParse_isoDate [OF assms(1,2)] isoParse_isoDate [OF assms(3,4)] by simp
  then show "a = b" by (simp add: msPerDay_def)
next
  assume "a = b"
  then show "isoDate a = isoDate b" by simp
qed

lemma isoParse_parsesDayKeys:
  assumes "list_all (\<lambda>(epoch, p).
      case TimeClip (timestamp p * 1000) of
        None \<Rightarrow> True
      | Some t \<Rightarrow> DayFromYear 0 \<le> Day t \<and> Day t < DayFromYear 10000) prices"
  shows "parsesDayKeys isoParse prices"
  unfolding parsesDayKeys_def list_all_iff
proof (intro ballI)
  fix e
  assume e: "e \<in> set prices"
  obtain epoch p where ep: "e = (epoch, p)" by (cases e)
  show "case e of (epoch, priceData) \<Rightarrow>
          (case TimeClip (timestamp priceData * 1000) of
             None \<Rightarrow> True
           | Some t \<Rightarrow> isoParse (isoDate (Day t)) = Some (Day t * msPerDay))"
  proof (cases "TimeClip (timestamp p * 1000)")
    case None
    with ep show ?thesis by simp
  next
    case (Some t)
    with assms e ep have "DayFromYear 0 \<le> Day t" "Day t < DayFromYear 10000"
      by (auto simp: list_all_iff)
    then have "isoParse (isoDate (Day t)) = Some (Day t * msPerDay)"
      by (rule isoParse_isoDate)
    with Some ep show ?thesis by simp
  qed
qed

lemma digits_chars: "set (digits w n) \<subseteq> set ''0123456789''"
proof (induction w arbitrary: n)
  case 0
  show ?case by simp
next
  case (Suc w)
  have "n mod 10 < length ''0123456789''" by simp
  then have "''0123456789'' ! (n mod 10) \<in> set ''0123456789''"
    by (rule nth_mem)
  with Suc show ?case by auto
qed

lemma T_notin_digits: "CHR ''T'' \<notin> set (digits w n)"
  using digits_chars [of w n] by auto

lemma T_notin_isoDate: "CHR ''T'' \<notin> set (isoDate z)"
  by (auto simp: isoDate_def yearString_def T_notin_digits)

lemma takeWhile_T: "CHR ''T'' \<notin> set s \<Longrightarrow> takeWhile (\<lambda>c. c \<noteq> CHR ''T'') (s @ CHR ''T'' # r) = s"
  by (induction s) auto

lemma formatDate_eq:
  "formatDate epoch =
     (case TimeClip (epoch * 1000) of
        None \<Rightarrow> Inl RangeError
      | Some t \<Rightarrow> Inr (isoDate (Day t)))"
  using takeWhile_T [OF T_notin_isoDate]
  by (simp add: formatDate_def toISOString_def split: option.splits)

text \<open>What \<open>isoDate\<close> prints is the calendar date of the day: the year, month and
  day of the month whose day number it is.\<close>

lemma isoDate_calendar:
  "\<exists>y m d. isoDate day = yearString y @ ''-'' @ digits 2 m @ ''-'' @ digits 2 d
     \<and> 1 \<le> m \<and> m \<le> 12 \<and> 1 \<le> d
     \<and> int d \<le> DaysBeforeMonth (InLeapYear y) m - DaysBeforeMonth (InLeapYear y) (m - 1)
     \<and> DayFromYear y + DaysBeforeMonth (InLeapYear y) (m - 1) + int d - 1 = day"
proof (intro exI conjI)
  let ?y = "YearFromDay day" and ?m = "Suc (MonthFromDay day)" and ?d = "nat (DateFromDay day)"
  show "isoDate day = yearString ?y @ ''-'' @ digits 2 ?m @ ''-'' @ digits 2 ?d"
    by (simp add: isoDate_def)
  show "1 \<le> ?m" by simp
  show "?m \<le> 12" using MonthFromDay_bounds(1) [of day] by simp
  show "1 \<le> ?d" using DateFromDay_bounds(1) [of day] by simp
  show "int ?d \<le> DaysBeforeMonth (InLeapYear ?y) ?m - DaysBeforeMonth (InLeapYear ?y) (?m - 1)"
    using DateFromDay_bounds(1,2) [of day] by simp
  show "DayFromYear ?y + DaysBeforeMonth (InLeapYear ?y) (?m - 1) + int ?d - 1 = day"
    using DateFromDay_bounds(1) [of day] day_of_calendar_fields [of day] by simp
qed

subsection \<open>Sorting and sets\<close>

text \<open>
  The sort permutes; it keeps the order of elements that the comparator does not
  tell apart; it commutes with a map that the comparator factors through; and where
  every date parses it is the stable sort by time.
\<close>

lemma set_insertSorted: "set (insertSorted c x ys) = insert x (set ys)"
  by (induction ys) auto

lemma set_sortArray: "set (sortArray c xs) = set xs"
  unfolding sortArray_def by (induction xs) (simp_all add: set_insertSorted)

lemma distinct_insertSorted: "distinct (insertSorted c x ys) = (x \<notin> set ys \<and> distinct ys)"
  by (induction ys) (auto simp: set_insertSorted)

lemma distinct_sortArray: "distinct (sortArray c xs) = distinct xs"
  unfolding sortArray_def
proof (induction xs)
  case Nil
  show ?case by simp
next
  case (Cons x xs)
  have "set (foldr (insertSorted c) xs []) = set xs"
    using set_sortArray [of c xs] by (simp add: sortArray_def)
  with Cons show ?case by (simp add: distinct_insertSorted)
qed

lemma length_insertSorted: "length (insertSorted c x ys) = Suc (length ys)"
  by (induction ys) auto

lemma filter_insertSorted:
  assumes "\<And>y. P x \<Longrightarrow> P y \<Longrightarrow> SortCompare c x y \<le> 0"
  shows "filter P (insertSorted c x ys) = (if P x then x # filter P ys else filter P ys)"
  using assms by (induction ys) fastforce+

lemma filter_sortArray:
  assumes "\<And>x y. P x \<Longrightarrow> P y \<Longrightarrow> SortCompare c x y \<le> 0"
  shows "filter P (sortArray c xs) = filter P xs"
  unfolding sortArray_def
  by (induction xs) (simp_all add: filter_insertSorted assms)

lemma map_insertSorted:
  "map f (insertSorted (\<lambda>a b. c (f a) (f b)) x ys) = insertSorted c (f x) (map f ys)"
  by (induction ys) (simp_all add: SortCompare_def)

lemma map_sortArray:
  "map f (sortArray (\<lambda>a b. c (f a) (f b)) xs) = sortArray c (map f xs)"
  unfolding sortArray_def by (induction xs) (simp_all add: map_insertSorted)

lemma sortArray_in_order:
  assumes "successively (\<lambda>x y. SortCompare c x y \<le> 0) xs"
  shows "sortArray c xs = xs"
  using assms
proof (induction xs)
  case Nil
  show ?case by (simp add: sortArray_def)
next
  case (Cons x xs)
  then have IH: "sortArray c xs = xs" by (cases xs) simp_all
  have "sortArray c (x # xs) = insertSorted c x (sortArray c xs)"
    by (simp add: sortArray_def)
  with IH Cons.prems show ?case by (cases xs) simp_all
qed









lemma set_foldl_setAdd: "set (foldl setAdd acc xs) = set acc \<union> set xs"
  by (induction xs arbitrary: acc) (auto simp: setAdd_def)

lemma distinct_foldl_setAdd: "distinct acc \<Longrightarrow> distinct (foldl setAdd acc xs)"
  by (induction xs arbitrary: acc) (auto simp: setAdd_def)

lemma set_newSet: "set (newSet xs) = set xs"
  by (simp add: newSet_def set_foldl_setAdd)

lemma distinct_newSet: "distinct (newSet xs)"
  by (simp add: newSet_def distinct_foldl_setAdd)


lemma sum_list_insertSorted:
  fixes f :: "'a \<Rightarrow> rat"
  shows "sum_list (map f (insertSorted c x ys)) = f x + sum_list (map f ys)"
  by (induction ys) simp_all

lemma sum_list_sortArray:
  fixes f :: "'a \<Rightarrow> rat"
  shows "sum_list (map f (sortArray c xs)) = sum_list (map f xs)"
  unfolding sortArray_def by (induction xs) (simp_all add: sum_list_insertSorted)


subsection \<open>The day-keyed prices\<close>

lemma formatStockPrices_lookup:
  "formatStockPrices prices acc = Inr obj \<Longrightarrow>
   map_of obj k =
     (case filter (\<lambda>(epoch, p). formatDate (timestamp p) = Inr k) prices of
        [] \<Rightarrow> map_of acc k
      | es \<Rightarrow> Some (close (snd (last es))))"
proof (induction prices arbitrary: acc)
  case Nil
  then show ?case by simp
next
  case (Cons e prices)
  obtain epoch p where e: "e = (epoch, p)" by (cases e)
  from Cons.prems e obtain dk where dk: "formatDate (timestamp p) = Inr dk"
    and rest: "formatStockPrices prices (AList.update dk (close p) acc) = Inr obj"
    by (auto split: sum.splits)
  note IH = Cons.IH [OF rest]
  show ?case
    using IH e dk by (auto simp: update_conv' split: list.splits)
qed


lemma formatStockPrices_Inr:
  "(\<exists>obj. formatStockPrices prices acc = Inr obj) =
     list_all (\<lambda>(epoch, p). TimeClip (timestamp p * 1000) \<noteq> None) prices"
proof (induction prices arbitrary: acc)
  case Nil
  show ?case by simp
next
  case (Cons e prices)
  obtain epoch p where e: "e = (epoch, p)" by (cases e)
  show ?case
    using Cons.IH e by (auto simp: formatDate_eq split: option.splits)
qed


lemma iteration_order_matters:
  "formatStockPrices
     [(''a'', \<lparr>close = 100, timestamp = 1609718400\<rparr>),
      (''b'', \<lparr>close = 105, timestamp = 1609722000\<rparr>)] [] = Inr [(''2021-01-04'', 105)]
   \<and> formatStockPrices
     [(''b'', \<lparr>close = 105, timestamp = 1609722000\<rparr>),
      (''a'', \<lparr>close = 100, timestamp = 1609718400\<rparr>)] [] = Inr [(''2021-01-04'', 100)]"
  by code_simp



subsection \<open>The walk\<close>

text \<open>
  The loops as a recursion: the result of \<open>calculatePortfolioValue\<close> is
  \<open>walkFrom\<close> over the walked days, on the transactions as given (the sort of the
  transactions only matters through the order of the days).
\<close>

lemma applyTransaction_signed: "applyTransaction cs t = cs + signedQuantity t"
  by (cases "action t") (simp_all add: applyTransaction_def signedQuantity_def)

lemma foldl_applyTransaction:
  "foldl applyTransaction cs ts = cs + sum_list (map signedQuantity ts)"
  by (induction ts arbitrary: cs) (simp_all add: applyTransaction_signed)

lemma visitDate_walk:
  "visitDate stx obj (cs, pv) d =
     (cs + dayDelta stx d, pv @ walkFrom stx obj cs [d])"
  by (simp add: visitDate_def foldl_applyTransaction dayDelta_def Let_def)

lemma walkFrom_append:
  "walkFrom txs obj cs (ds @ es) =
     walkFrom txs obj cs ds @ walkFrom txs obj (cs + sum_list (map (dayDelta txs) ds)) es"
  by (induction ds arbitrary: cs) (simp_all add: Let_def add.assoc)

lemma foldl_visitDate:
  "foldl (visitDate stx obj) (cs, pv) ds =
     (cs + sum_list (map (dayDelta stx) ds), pv @ walkFrom stx obj cs ds)"
proof (induction ds arbitrary: cs pv)
  case Nil
  show ?case by simp
next
  case (Cons d ds)
  show ?case
    by (simp add: visitDate_walk Cons.IH Let_def add.assoc)
qed

lemma SortCompare_same_date:
  "SortCompare (\<lambda>a b. compareDates parse (f a) (f b)) x y \<le> 0" if "f x = f y"
  using that by (simp add: SortCompare_def compareDates_def split: option.splits)

lemma filter_date_sortTransactions:
  "filter (\<lambda>t. Transaction.date t = d) (sortTransactions parse txs)
     = filter (\<lambda>t. Transaction.date t = d) txs"
  unfolding sortTransactions_def
  by (rule filter_sortArray) (simp add: SortCompare_same_date)

lemma dayDelta_sortTransactions: "dayDelta (sortTransactions parse txs) d = dayDelta txs d"
  by (simp add: dayDelta_def filter_date_sortTransactions)


lemma walkFrom_cong:
  "(\<And>d. dayDelta a d = dayDelta b d) \<Longrightarrow> walkFrom a obj cs ds = walkFrom b obj cs ds"
  by (induction ds arbitrary: cs) simp_all

lemma calculatePortfolioValue_walk:
  "calculatePortfolioValue parse txs prices =
     (case formatStockPrices prices [] of
        Inl e \<Rightarrow> Inl e
      | Inr obj \<Rightarrow> Inr (walkFrom txs obj 0 (walkedDays parse txs obj)))"
proof -
  have "walkFrom (sortTransactions parse txs) obj cs ds = walkFrom txs obj cs ds" for obj cs ds
    by (rule walkFrom_cong) (rule dayDelta_sortTransactions)
  then show ?thesis
    by (simp add: calculatePortfolioValue_def foldl_visitDate walkedDays_def Let_def
        split: sum.splits)
qed

lemma set_walkedDays:
  "set (walkedDays parse txs obj) = Transaction.date ` set txs \<union> fst ` set obj"
  by (simp add: walkedDays_def sortDates_def sortTransactions_def set_sortArray set_newSet)

lemma distinct_walkedDays: "distinct (walkedDays parse txs obj)"
  by (simp add: walkedDays_def sortDates_def distinct_sortArray distinct_newSet)



lemma dates_sortTransactions:
  "map Transaction.date (sortTransactions parse txs)
     = sortArray (compareDates parse) (map Transaction.date txs)"
  unfolding sortTransactions_def by (rule map_sortArray)

lemma walkedDays_dates:
  "walkedDays parse txs obj =
     sortArray (compareDates parse)
       (newSet (sortArray (compareDates parse) (map Transaction.date txs) @ map fst obj))"
  by (simp add: walkedDays_def sortDates_def dates_sortTransactions)




lemma walkFrom_emits:
  assumes "d \<in> set ds" and "distinct ds" and "getProperty obj d \<noteq> Undefined"
    and "0 < cs + sum_list (map (dayDelta txs) (takeWhile (\<lambda>x. x \<noteq> d) ds)) + dayDelta txs d"
  shows "\<exists>p \<in> set (walkFrom txs obj cs ds). PortfolioValueData.date p = d"
  using assms
proof (induction ds arbitrary: cs)
  case Nil
  then show ?case by simp
next
  case (Cons e ds)
  show ?case
  proof (cases "e = d")
    case True
    with Cons.prems show ?thesis by (auto simp: Let_def)
  next
    case False
    with Cons.prems have "\<exists>p \<in> set (walkFrom txs obj (cs + dayDelta txs e) ds).
        PortfolioValueData.date p = d"
      by (intro Cons.IH) (simp_all add: add.assoc)
    then show ?thesis by (auto simp: Let_def)
  qed
qed









lemma walkFrom_never_positive:
  assumes "\<And>d. dayDelta txs d \<le> 0" and "cs \<le> 0"
  shows "walkFrom txs obj cs ds = []"
  using assms(2)
proof (induction ds arbitrary: cs)
  case Nil
  show ?case by simp
next
  case (Cons d ds)
  from Cons.prems assms(1) [of d] have le: "cs + dayDelta txs d \<le> 0" by simp
  from Cons.IH [OF le] le show ?case by (simp add: Let_def)
qed

lemma dayDelta_sells:
  assumes "list_all (\<lambda>t. action t \<noteq> B \<and> 0 \<le> quantity t) txs"
  shows "dayDelta txs d \<le> 0"
proof -
  have "signedQuantity t \<le> 0" if "t \<in> set txs" for t
    using assms that by (cases "action t") (auto simp: signedQuantity_def list_all_iff)
  then have "sum_list (map signedQuantity (filter (\<lambda>t. Transaction.date t = d) txs)) \<le> 0"
    by (intro sum_list_nonpos) auto
  then show ?thesis by (simp add: dayDelta_def)
qed

lemma sameTrades_dates: "sameTrades xs ys \<Longrightarrow> map Transaction.date xs = map Transaction.date ys"
  unfolding sameTrades_def by (induction rule: list_all2_induct) simp_all

lemma sameTrades_dayDelta: "sameTrades xs ys \<Longrightarrow> dayDelta xs d = dayDelta ys d"
  unfolding sameTrades_def
  by (induction rule: list_all2_induct) (auto simp: dayDelta_def signedQuantity_def split: Action.splits)

lemma later_on_the_same_day:
  "calculatePortfolioValue isoParse [trade B ''2021-01-04T12:00:00.000Z'' 5]
     [(''1609718400'', \<lparr>close = 100, timestamp = 1609718400\<rparr>)] = Inr []
   \<and> calculatePortfolioValue isoParse [trade B ''2021-01-04T00:00:00.000Z'' 5]
     [(''1609718400'', \<lparr>close = 100, timestamp = 1609718400\<rparr>)]
     = Inr [\<lparr>date = ''2021-01-04'', value = Some 500\<rparr>]
   \<and> calculatePortfolioValue isoParse [trade B ''2021-01-04'' 5]
     [(''1609718400'', \<lparr>close = 100, timestamp = 1609718400\<rparr>)]
     = Inr [\<lparr>date = ''2021-01-04'', value = Some 500\<rparr>]"
  by code_simp

subsection \<open>Exact arithmetic\<close>

text \<open>
  The whole numbers of magnitude below \<open>2 ^ 53\<close> are binary64 numbers.
\<close>

lemma binary64_of_int: "\<bar>n\<bar> < 2 ^ 53 \<Longrightarrow> binary64 (of_int n)"
  unfolding binary64_def
  by (rule bexI [of _ n]) (auto intro: bexI [of _ 0])

lemma binary64_numeral: "(numeral n :: int) < 2 ^ 53 \<Longrightarrow> binary64 (numeral n)"
  using binary64_of_int [of "numeral n"] by simp



text \<open>
  Timestamps in whole seconds, and quantities in whole shares whose magnitudes add up
  to less than \<open>2 ^ 53\<close>, are never rounded: every product with 1000 in the range
  of Date, and every share count of the walk, is a whole number below \<open>2 ^ 53\<close>.
\<close>

lemma binary64_Ints: "q \<in> \<int> \<Longrightarrow> \<bar>q\<bar> < 2 ^ 53 \<Longrightarrow> binary64 q"
proof -
  assume "q \<in> \<int>" and small: "\<bar>q\<bar> < 2 ^ 53"
  then obtain n :: int where q: "q = of_int n" by (auto elim: Ints_cases)
  from small have "\<bar>(of_int n :: rat)\<bar> < of_int (2 ^ 53)" by (simp add: q)
  then have "\<bar>n\<bar> < 2 ^ 53" by (simp only: of_int_abs [symmetric] of_int_less_iff)
  then show ?thesis unfolding q by (rule binary64_of_int)
qed

lemma whole_seconds_exactKeys:
  assumes "list_all (\<lambda>(epoch, p). timestamp p \<in> \<int> \<and> \<bar>timestamp p * 1000\<bar> < 2 ^ 53) prices"
  shows "exactKeys prices"
  unfolding exactKeys_def list_all_iff
proof (clarify)
  fix epoch p
  assume "(epoch, p) \<in> set prices"
  with assms have "timestamp p \<in> \<int>" and "\<bar>timestamp p * 1000\<bar> < 2 ^ 53"
    by (auto simp: list_all_iff)
  then show "binary64 (timestamp p * 1000)"
    by (intro binary64_Ints Ints_mult) simp_all
qed

lemma applyTransaction_whole:
  assumes "cs \<in> \<int>" and "quantity t \<in> \<int>"
  shows "applyTransaction cs t \<in> \<int>"
    and "\<bar>applyTransaction cs t\<bar> \<le> \<bar>cs\<bar> + \<bar>quantity t\<bar>"
  using assms by (auto simp: applyTransaction_def)

lemma exactSums_whole:
  assumes "cs \<in> \<int>" and "\<forall>t \<in> set ts. quantity t \<in> \<int>"
    and "\<bar>cs\<bar> + sum_list (map (\<lambda>t. \<bar>quantity t\<bar>) ts) < 2 ^ 53"
  shows "exactSums cs ts"
  using assms
proof (induction ts arbitrary: cs)
  case Nil
  show ?case by simp
next
  case (Cons t ts)
  from Cons.prems have q: "quantity t \<in> \<int>" by simp
  note step = applyTransaction_whole [OF Cons.prems(1) q]
  have nonneg: "0 \<le> sum_list (map (\<lambda>t. \<bar>quantity t\<bar>) ts)"
    by (rule sum_list_nonneg) auto
  from step(2) Cons.prems(3) nonneg have "\<bar>applyTransaction cs t\<bar> < 2 ^ 53" by simp
  with step(1) have b: "binary64 (applyTransaction cs t)" by (intro binary64_Ints)
  from step(2) Cons.prems(3)
  have "\<bar>applyTransaction cs t\<bar> + sum_list (map (\<lambda>t. \<bar>quantity t\<bar>) ts) < 2 ^ 53" by simp
  with Cons.prems(2) step(1) have "exactSums (applyTransaction cs t) ts"
    by (intro Cons.IH) simp_all
  with b show ?case by simp
qed

lemma sum_list_absent:
  fixes c :: rat
  shows "x \<notin> set ds \<Longrightarrow> sum_list (map (\<lambda>d. if x = d then c else 0) ds) = 0"
  by (induction ds) auto

lemma sum_list_indicator:
  fixes c :: rat
  assumes "distinct ds" and "x \<in> set ds"
  shows "sum_list (map (\<lambda>d. if x = d then c else 0) ds) = c"
  using assms by (induction ds) (auto simp: sum_list_absent)

lemma sum_by_day:
  fixes f :: "Transaction \<Rightarrow> rat"
  assumes "distinct ds" and "Transaction.date ` set ts \<subseteq> set ds"
  shows "sum_list (map f (concat (map (\<lambda>d. filter (\<lambda>t. Transaction.date t = d) ts) ds)))
       = sum_list (map f ts)"
proof -
  have "sum_list (map f (concat (map (\<lambda>d. filter (\<lambda>t. Transaction.date t = d) ts) ds)))
      = sum_list (map (\<lambda>d. sum_list (map f (filter (\<lambda>t. Transaction.date t = d) ts))) ds)"
    by (induction ds) simp_all
  also have "\<dots> = sum_list (map f ts)"
    using assms(2)
  proof (induction ts)
    case Nil
    show ?case by (simp add: sum_list_0)
  next
    case (Cons t ts)
    have "sum_list (map (\<lambda>d. sum_list (map f (filter (\<lambda>t. Transaction.date t = d) (t # ts)))) ds)
        = sum_list (map (\<lambda>d. (if Transaction.date t = d then f t else 0)
            + sum_list (map f (filter (\<lambda>t. Transaction.date t = d) ts))) ds)"
      by (intro arg_cong [where f = sum_list] map_cong) simp_all
    also have "\<dots> = sum_list (map (\<lambda>d. if Transaction.date t = d then f t else 0) ds)
        + sum_list (map (\<lambda>d. sum_list (map f (filter (\<lambda>t. Transaction.date t = d) ts))) ds)"
      by (simp add: sum_list_addf)
    also have "\<dots> = f t + sum_list (map f ts)"
      using Cons assms(1) by (simp add: sum_list_indicator)
    finally show ?case by simp
  qed
  finally show ?thesis .
qed

lemma whole_quantities_exactShares:
  assumes "list_all (\<lambda>t. quantity t \<in> \<int>) txs"
    and "sum_list (map (\<lambda>t. \<bar>quantity t\<bar>) txs) < 2 ^ 53"
  shows "exactShares parse txs prices"
proof (cases "formatStockPrices prices []")
  case (Inl e)
  then show ?thesis by (simp add: exactShares_def)
next
  case (Inr obj)
  let ?stx = "sortTransactions parse txs"
  have set_stx: "set ?stx = set txs" by (simp add: sortTransactions_def set_sortArray)
  have "sum_list (map (\<lambda>t. \<bar>quantity t\<bar>) (appliedTransactions parse txs obj))
      = sum_list (map (\<lambda>t. \<bar>quantity t\<bar>) ?stx)"
    unfolding appliedTransactions_def
    by (rule sum_by_day) (auto simp: distinct_walkedDays set_walkedDays set_stx)
  also have "\<dots> = sum_list (map (\<lambda>t. \<bar>quantity t\<bar>) txs)"
    by (simp add: sortTransactions_def sum_list_sortArray)
  finally have total: "sum_list (map (\<lambda>t. \<bar>quantity t\<bar>) (appliedTransactions parse txs obj)) < 2 ^ 53"
    using assms(2) by simp
  have "set (appliedTransactions parse txs obj) \<subseteq> set txs"
    by (auto simp: appliedTransactions_def set_stx)
  with assms(1) have whole: "\<forall>t \<in> set (appliedTransactions parse txs obj). quantity t \<in> \<int>"
    by (auto simp: list_all_iff)
  have "exactSums 0 (appliedTransactions parse txs obj)"
    using whole total by (intro exactSums_whole) simp_all
  with Inr show ?thesis by (simp add: exactShares_def)
qed

text \<open>The fixture of the component is of that kind, whatever the prices.\<close>

lemma fixture_exact:
  "exactShares parse GOOGL prices \<and> noInheritedDates GOOGL \<and> datesParse isoParse GOOGL"
proof (intro conjI)
  show "exactShares parse GOOGL prices"
    by (rule whole_quantities_exactShares) (simp_all add: GOOGL_def)
  show "noInheritedDates GOOGL" by code_simp
  show "datesParse isoParse GOOGL" by code_simp
qed

text \<open>
  \<open>2 ^ 53 + 1\<close> is not a binary64 number. So the share counts of Buy \<open>2 ^ 53\<close>,
  Buy 1, Sell \<open>2 ^ 53\<close> are not exact: the model ends with 1 share, the program
  rounds the second sum and ends with none.
\<close>

lemma not_binary64_2_53_plus_1: "\<not> binary64 (2 ^ 53 + 1)"
proof
  assume "binary64 (2 ^ 53 + 1)"
  then obtain m :: int and k :: nat where m: "- (2 ^ 53) < m" "m < 2 ^ 53"
    and c: "(2 ^ 53 + 1 :: rat) = of_int m * 2 ^ k \<or> (2 ^ 53 + 1 :: rat) = of_int m / 2 ^ k"
    unfolding binary64_def Bex_def greaterThanLessThan_iff by blast
  from c show False
  proof
    assume "(2 ^ 53 + 1 :: rat) = of_int m * 2 ^ k"
    then have "(of_int (2 ^ 53 + 1) :: rat) = of_int (m * 2 ^ k)" by simp
    then have e: "(2 ^ 53 + 1 :: int) = m * 2 ^ k" by (simp only: of_int_eq_iff)
    show False
    proof (cases k)
      case 0
      with e m show False by simp
    next
      case (Suc j)
      with e have "(2 ^ 53 + 1 :: int) = 2 * (m * 2 ^ j)" by simp
      then have "even (2 ^ 53 + 1 :: int)" by (metis dvd_triv_left)
      then show False by simp
    qed
  next
    assume "(2 ^ 53 + 1 :: rat) = of_int m / 2 ^ k"
    then have "(2 ^ 53 + 1 :: rat) * 2 ^ k = of_int m" by (simp add: field_simps)
    then have "(of_int ((2 ^ 53 + 1) * 2 ^ k) :: rat) = of_int m" by simp
    then have e: "(2 ^ 53 + 1 :: int) * 2 ^ k = m" by (simp only: of_int_eq_iff)
    have "(1 :: int) \<le> 2 ^ k" by simp
    then have "(2 ^ 53 + 1 :: int) * 1 \<le> (2 ^ 53 + 1) * 2 ^ k" by (intro mult_left_mono) simp_all
    with e m show False by simp
  qed
qed

lemma sum_beyond_2_53_rounds:
  "\<not> exactSums 0
       [trade B ''2021-01-04'' 9007199254740992, trade B ''2021-01-04'' 1,
        trade S ''2021-01-04'' 9007199254740992]
   \<and> foldl applyTransaction 0
       [trade B ''2021-01-04'' 9007199254740992, trade B ''2021-01-04'' 1,
        trade S ''2021-01-04'' 9007199254740992] = 1"
  using not_binary64_2_53_plus_1 by (simp add: applyTransaction_def trade_def)

subsection \<open>The store\<close>

text \<open>
  A call appends the sorted copy to the store and changes nothing else; a sort in
  place of the array it was given would have overwritten it.
\<close>

lemma calculatePortfolioValueOn_eq:
  "calculatePortfolioValueOn parse h a s =
     (h\<lparr>arrays := arrays h @ [sortTransactions parse (arrays h ! a)]\<rparr>,
      calculatePortfolioValue parse (arrays h ! a) (objects h ! s))"
  by (simp add: calculatePortfolioValueOn_def spread_def sortInPlace_def
      calculatePortfolioValue_def sortTransactions_def Let_def split: sum.splits)

lemma sortInPlace_overwrites:
  "a < length (arrays h) \<Longrightarrow>
   arrays (sortInPlace c a h) ! a = sortArray c (arrays h ! a)"
  by (simp add: sortInPlace_def)

lemma second_call_same_output:
  assumes "transactions < length (arrays h)"
  shows "snd (calculatePortfolioValueOn parse
            (fst (calculatePortfolioValueOn parse h transactions prices)) transactions prices)
       = snd (calculatePortfolioValueOn parse h transactions prices)"
  using assms by (simp add: calculatePortfolioValueOn_eq nth_append)

lemma sort_on_the_copy:
  "fst (calculatePortfolioValueOn isoParse
     \<lparr>arrays = [[trade B ''2021-01-05'' 1, trade B ''2021-01-04'' 5]], objects = [[]]\<rparr> 0 0)
   = \<lparr>arrays = [[trade B ''2021-01-05'' 1, trade B ''2021-01-04'' 5],
                [trade B ''2021-01-04'' 5, trade B ''2021-01-05'' 1]],
      objects = [[]]\<rparr>"
  by code_simp

subsection \<open>The scenarios of the specification\<close>

text \<open>The runs of section 8 of the specification, and the run of the component on
  the fixture, in the exact arithmetic of the model (the closes of the fixture are
  decimal fractions, which the program holds rounded to binary64).\<close>

lemma scenario_buy_only:
  "calculatePortfolioValue isoParse [trade B ''2021-01-04'' 5]
     [(''1609718400'', \<lparr>close = 100, timestamp = 1609718400\<rparr>),
      (''1609804800'', \<lparr>close = 110, timestamp = 1609804800\<rparr>)]
   = Inr [\<lparr>date = ''2021-01-04'', value = Some 500\<rparr>,
          \<lparr>date = ''2021-01-05'', value = Some 550\<rparr>]"
  by code_simp

lemma scenario_buy_then_full_sell:
  "calculatePortfolioValue isoParse [trade B ''2021-01-04'' 5, trade S ''2021-01-05'' 5]
     [(''1609718400'', \<lparr>close = 100, timestamp = 1609718400\<rparr>),
      (''1609804800'', \<lparr>close = 110, timestamp = 1609804800\<rparr>),
      (''1609891200'', \<lparr>close = 120, timestamp = 1609891200\<rparr>)]
   = Inr [\<lparr>date = ''2021-01-04'', value = Some 500\<rparr>]"
  by code_simp

lemma scenario_price_missing:
  "calculatePortfolioValue isoParse [trade B ''2021-01-04'' 5]
     [(''1609891200'', \<lparr>close = 110, timestamp = 1609891200\<rparr>)]
   = Inr [\<lparr>date = ''2021-01-06'', value = Some 550\<rparr>]"
  by code_simp

lemma scenario_fixture:
  "runChart isoParse (Response True 200 (Json
     [(''1609718400'', \<lparr>close = 8631 / 100, timestamp = 1609718400\<rparr>),
      (''1641254400'', \<lparr>close = 1444 / 10, timestamp = 1641254400\<rparr>),
      (''1690329600'', \<lparr>close = 12927 / 100, timestamp = 1690329600\<rparr>)]))
   = Inr \<lparr>portfolioData =
            [\<lparr>date = ''2021-01-04'', value = Some (43155 / 100)\<rparr>,
             \<lparr>date = ''2022-01-04'', value = Some 1444\<rparr>,
             \<lparr>date = ''2023-07-26'', value = Some (64635 / 100)\<rparr>],
          stockPrices = Some
            [(''1609718400'', \<lparr>close = 8631 / 100, timestamp = 1609718400\<rparr>),
             (''1641254400'', \<lparr>close = 1444 / 10, timestamp = 1641254400\<rparr>),
             (''1690329600'', \<lparr>close = 12927 / 100, timestamp = 1690329600\<rparr>)],
          console = []\<rparr>"
  by code_simp

section \<open>The claims\<close>










text \<open>
  C4 (amended). \<open>formatDate\<close> throws a RangeError for a timestamp whose product
  with 1000 is beyond the range of Date, 8.64e15 milliseconds either side of the epoch.
  Within the range, and where the product is not rounded, a price observation is keyed
  by its day: the timestamp times 1000 is taken as milliseconds since the epoch,
  truncated to whole milliseconds, and the key is the ISO calendar date, year, month
  and day of the month, of the UTC day that holds it. Where several entries have the
  same day key, the entry iterated last gives the day's price.
\<close>

theorem dayKey_last_write_wins:
  "(8640000000000000 < \<bar>epoch * 1000\<bar> \<longrightarrow> formatDate epoch = Inl RangeError)
   \<and> (binary64 (epoch * 1000) \<and> \<bar>epoch * 1000\<bar> \<le> 8640000000000000 \<longrightarrow>
        (\<exists>y m d.
           formatDate epoch = Inr (yearString y @ ''-'' @ digits 2 m @ ''-'' @ digits 2 d)
           \<and> 1 \<le> m \<and> m \<le> 12 \<and> 1 \<le> d
           \<and> int d \<le> DaysBeforeMonth (InLeapYear y) m - DaysBeforeMonth (InLeapYear y) (m - 1)
           \<and> DayFromYear y + DaysBeforeMonth (InLeapYear y) (m - 1) + int d - 1
               = (if 0 \<le> epoch then \<lfloor>epoch * 1000\<rfloor> else - \<lfloor>- (epoch * 1000)\<rfloor>) div 86400000))
   \<and> (formatStockPrices prices [] = Inr obj \<longrightarrow>
        map_of obj k =
          (case filter (\<lambda>(epoch, p). formatDate (timestamp p) = Inr k) prices of
             [] \<Rightarrow> None
           | es \<Rightarrow> Some (close (snd (last es)))))"
proof (intro conjI impI)
  assume "8640000000000000 < \<bar>epoch * 1000\<bar>"
  then show "formatDate epoch = Inl RangeError"
    by (simp add: formatDate_eq TimeClip_def)
next
  assume "binary64 (epoch * 1000) \<and> \<bar>epoch * 1000\<bar> \<le> 8640000000000000"
  then have range: "\<not> 8640000000000000 < \<bar>epoch * 1000\<bar>" by simp
  let ?t = "if 0 \<le> epoch then \<lfloor>epoch * 1000\<rfloor> else - \<lfloor>- (epoch * 1000)\<rfloor>"
  have sign: "(0 \<le> epoch * 1000) = (0 \<le> epoch)" by (simp add: zero_le_mult_iff)
  from range have "TimeClip (epoch * 1000) = Some ?t"
    by (simp add: TimeClip_def sign)
  then have key: "formatDate epoch = Inr (isoDate (?t div 86400000))"
    by (simp add: formatDate_eq Day_def msPerDay_def)
  from isoDate_calendar [of "?t div 86400000"] 
  show "\<exists>y m d.
           formatDate epoch = Inr (yearString y @ ''-'' @ digits 2 m @ ''-'' @ digits 2 d)
           \<and> 1 \<le> m \<and> m \<le> 12 \<and> 1 \<le> d
           \<and> int d \<le> DaysBeforeMonth (InLeapYear y) m - DaysBeforeMonth (InLeapYear y) (m - 1)
           \<and> DayFromYear y + DaysBeforeMonth (InLeapYear y) (m - 1) + int d - 1 = ?t div 86400000"
    unfolding key by blast
next
  assume "formatStockPrices prices [] = Inr obj"
  then show "map_of obj k =
          (case filter (\<lambda>(epoch, p). formatDate (timestamp p) = Inr k) prices of
             [] \<Rightarrow> None
           | es \<Rightarrow> Some (close (snd (last es))))"
    using formatStockPrices_lookup [of prices "[]" obj k] by (simp split: list.splits)
qed

theorem dayKey_last_write_wins_witness:
  "binary64 (1609722000 * 1000)
   \<and> \<bar>1609722000 * 1000 :: rat\<bar> \<le> 8640000000000000
   \<and> formatDate 1609718400 = Inr ''2021-01-04''
   \<and> formatDate 1609722000 = Inr ''2021-01-04''
   \<and> ''2021-01-04'' = yearString 2021 @ ''-'' @ digits 2 1 @ ''-'' @ digits 2 4
   \<and> DayFromYear 2021 + DaysBeforeMonth (InLeapYear 2021) 0 + 4 - 1
       = \<lfloor>1609722000 * 1000 :: rat\<rfloor> div 86400000
   \<and> (\<exists>y m d.
         formatDate 1609722000 = Inr (yearString y @ ''-'' @ digits 2 m @ ''-'' @ digits 2 d)
         \<and> 1 \<le> m \<and> m \<le> 12 \<and> 1 \<le> d
         \<and> int d \<le> DaysBeforeMonth (InLeapYear y) m - DaysBeforeMonth (InLeapYear y) (m - 1)
         \<and> DayFromYear y + DaysBeforeMonth (InLeapYear y) (m - 1) + int d - 1 = 18631)
   \<and> 8640000000000000 < \<bar>10000000000000 * 1000 :: rat\<bar>
   \<and> formatDate 10000000000000 = Inl RangeError
   \<and> formatStockPrices
     [(''1609718400'', \<lparr>close = 100, timestamp = 1609718400\<rparr>),
      (''1609722000'', \<lparr>close = 105, timestamp = 1609722000\<rparr>)] []
     = Inr [(''2021-01-04'', 105)]
   \<and> filter (\<lambda>(epoch, p). formatDate (timestamp p) = Inr ''2021-01-04'')
       [(''1609718400'', \<lparr>close = 100, timestamp = 1609718400\<rparr>),
        (''1609722000'', \<lparr>close = 105, timestamp = 1609722000\<rparr>)]
     = [(''1609718400'', \<lparr>close = 100, timestamp = 1609718400\<rparr>),
        (''1609722000'', \<lparr>close = 105, timestamp = 1609722000\<rparr>)]
   \<and> map_of [(''2021-01-04'', 105 :: rat)] ''2021-01-04'' = Some 105"
proof -
  have f1: "formatDate 1609718400 = Inr ''2021-01-04''" by code_simp
  have f2: "formatDate 1609722000 = Inr ''2021-01-04''" by code_simp
  have b: "binary64 (1609722000 * 1000)" by (simp add: binary64_numeral)
  have cal: "''2021-01-04'' = yearString 2021 @ ''-'' @ digits 2 1 @ ''-'' @ digits 2 4
     \<and> DayFromYear 2021 + DaysBeforeMonth (InLeapYear 2021) 0 + 4 - 1
       = \<lfloor>1609722000 * 1000 :: rat\<rfloor> div 86400000"
    by code_simp
  have run: "formatStockPrices
     [(''1609718400'', \<lparr>close = 100, timestamp = 1609718400\<rparr>),
      (''1609722000'', \<lparr>close = 105, timestamp = 1609722000\<rparr>)] []
     = Inr [(''2021-01-04'', 105)]"
    by (simp add: f1 f2)
  note inst = dayKey_last_write_wins
    [of 10000000000000
       "[(''1609718400'', \<lparr>close = 100, timestamp = 1609718400\<rparr>),
         (''1609722000'', \<lparr>close = 105, timestamp = 1609722000\<rparr>)]"
       "[(''2021-01-04'', 105)]" "''2021-01-04''"]
  have range: "\<bar>1609722000 * 1000 :: rat\<bar> \<le> 8640000000000000" by simp
  have "\<exists>y m d.
         formatDate 1609722000 = Inr (yearString y @ ''-'' @ digits 2 m @ ''-'' @ digits 2 d)
         \<and> 1 \<le> m \<and> m \<le> 12 \<and> 1 \<le> d
         \<and> int d \<le> DaysBeforeMonth (InLeapYear y) m - DaysBeforeMonth (InLeapYear y) (m - 1)
         \<and> DayFromYear y + DaysBeforeMonth (InLeapYear y) (m - 1) + int d - 1 = 18631"
    using dayKey_last_write_wins [of 1609722000, THEN conjunct2, THEN conjunct1, rule_format,
        OF conjI [OF b range]]
    by simp
  with inst run f1 f2 b cal show ?thesis by simp
qed

theorem timestamp_out_of_range_counterexample:
  "formatDate 10000000000000 = Inl RangeError
   \<and> formatStockPrices [(''10000000000000'', \<lparr>close = 1, timestamp = 10000000000000\<rparr>)] []
     = Inl RangeError"
  by code_simp

text \<open>
  C5. \<open>calculatePortfolioValue\<close> leaves its inputs as they were: every array that the
  store held before the call, the transactions array among them, has the same elements
  in the same order after it, and so has every object, the prices mapping among them;
  the sort works on a copy. The result is that of the function on the contents.
\<close>

theorem inputs_unchanged:
  "take (length (arrays h)) (arrays (fst (calculatePortfolioValueOn parse h transactions prices)))
     = arrays h
   \<and> objects (fst (calculatePortfolioValueOn parse h transactions prices)) = objects h
   \<and> snd (calculatePortfolioValueOn parse h transactions prices)
     = calculatePortfolioValue parse (arrays h ! transactions) (objects h ! prices)"
proof (intro conjI)
  let ?h' = "fst (calculatePortfolioValueOn parse h transactions prices)"
  have after: "?h' = h\<lparr>arrays := arrays h @ [sortTransactions parse (arrays h ! transactions)]\<rparr>"
    by (simp add: calculatePortfolioValueOn_eq)
  show "take (length (arrays h)) (arrays ?h') = arrays h"
    unfolding after by simp
  show "objects ?h' = objects h"
    unfolding after by simp
  show "snd (calculatePortfolioValueOn parse h transactions prices)
     = calculatePortfolioValue parse (arrays h ! transactions) (objects h ! prices)"
    by (simp add: calculatePortfolioValueOn_eq)
qed



text \<open>
  C7. The \<open>price\<close> field of a transaction (and \<open>positionAveragePrice\<close>) is not
  used: for every prices mapping, two transaction lists that are equal except in those
  fields give the same result.
\<close>

theorem trade_price_not_used:
  assumes "sameTrades txs txs'"
  shows "calculatePortfolioValue parse txs prices = calculatePortfolioValue parse txs' prices"
proof -
  have days: "walkedDays parse txs obj = walkedDays parse txs' obj" for obj
    by (simp add: walkedDays_dates sameTrades_dates [OF assms])
  have "walkFrom txs obj cs ds = walkFrom txs' obj cs ds" for obj cs ds
    by (rule walkFrom_cong) (rule sameTrades_dayDelta [OF assms])
  with days show ?thesis
    by (simp add: calculatePortfolioValue_walk split: sum.splits)
qed

theorem trade_price_not_used_witness:
  "sameTrades
     [\<lparr>action = B, date = ''2021-01-04'', price = 100, quantity = 5,
        positionAveragePrice = Some None\<rparr>,
      \<lparr>action = S, date = ''2021-01-06'', price = 120, quantity = 5,
        positionAveragePrice = Some (Some 101)\<rparr>]
     [\<lparr>action = B, date = ''2021-01-04'', price = 7, quantity = 5,
        positionAveragePrice = None\<rparr>,
      \<lparr>action = S, date = ''2021-01-06'', price = 0, quantity = 5,
        positionAveragePrice = Some None\<rparr>]
   \<and> calculatePortfolioValue isoParse
     [\<lparr>action = B, date = ''2021-01-04'', price = 100, quantity = 5,
        positionAveragePrice = Some None\<rparr>,
      \<lparr>action = S, date = ''2021-01-06'', price = 120, quantity = 5,
        positionAveragePrice = Some (Some 101)\<rparr>]
     [(''1609718400'', \<lparr>close = 100, timestamp = 1609718400\<rparr>),
        (''1609804800'', \<lparr>close = 110, timestamp = 1609804800\<rparr>),
        (''1609891200'', \<lparr>close = 120, timestamp = 1609891200\<rparr>)]
     = calculatePortfolioValue isoParse
     [\<lparr>action = B, date = ''2021-01-04'', price = 7, quantity = 5,
        positionAveragePrice = None\<rparr>,
      \<lparr>action = S, date = ''2021-01-06'', price = 0, quantity = 5,
        positionAveragePrice = Some None\<rparr>]
     [(''1609718400'', \<lparr>close = 100, timestamp = 1609718400\<rparr>),
        (''1609804800'', \<lparr>close = 110, timestamp = 1609804800\<rparr>),
        (''1609891200'', \<lparr>close = 120, timestamp = 1609891200\<rparr>)]
   \<and> calculatePortfolioValue isoParse
     [\<lparr>action = B, date = ''2021-01-04'', price = 7, quantity = 5,
        positionAveragePrice = None\<rparr>,
      \<lparr>action = S, date = ''2021-01-06'', price = 0, quantity = 5,
        positionAveragePrice = Some None\<rparr>]
     [(''1609718400'', \<lparr>close = 100, timestamp = 1609718400\<rparr>),
        (''1609804800'', \<lparr>close = 110, timestamp = 1609804800\<rparr>),
        (''1609891200'', \<lparr>close = 120, timestamp = 1609891200\<rparr>)]
     = Inr [\<lparr>date = ''2021-01-04'', value = Some 500\<rparr>,
            \<lparr>date = ''2021-01-05'', value = Some 550\<rparr>]"
proof -
  let ?txs = "[\<lparr>action = B, date = ''2021-01-04'', price = 100, quantity = 5,
        positionAveragePrice = Some None\<rparr>,
      \<lparr>action = S, date = ''2021-01-06'', price = 120, quantity = 5,
        positionAveragePrice = Some (Some 101)\<rparr>]"
  let ?txs' = "[\<lparr>action = B, date = ''2021-01-04'', price = 7, quantity = 5,
        positionAveragePrice = None\<rparr>,
      \<lparr>action = S, date = ''2021-01-06'', price = 0, quantity = 5,
        positionAveragePrice = Some None\<rparr>]"
  let ?prices = "[(''1609718400'', \<lparr>close = 100, timestamp = 1609718400\<rparr>),
        (''1609804800'', \<lparr>close = 110, timestamp = 1609804800\<rparr>),
        (''1609891200'', \<lparr>close = 120, timestamp = 1609891200\<rparr>)]"
  have same: "sameTrades ?txs ?txs'" by (simp add: sameTrades_def)
  have out: "calculatePortfolioValue isoParse ?txs' ?prices
     = Inr [\<lparr>date = ''2021-01-04'', value = Some 500\<rparr>,
            \<lparr>date = ''2021-01-05'', value = Some 550\<rparr>]"
    by code_simp
  from trade_price_not_used [OF same, of isoParse ?prices] same out
  show ?thesis by simp
qed

text \<open>
  C8 (amended). A rejected fetch, a response that is not OK and a body that does not
  parse are caught and logged: the price state stays unset and the portfolio series
  stays empty. \<open>calculatePortfolioValue\<close> is only called after a fetch that resolved
  with a parsed body; an exception that it throws then is not caught.
\<close>

theorem fetch_failure_is_caught:
  "runChart parse outcome =
     (case outcome of
        Rejected \<Rightarrow>
          Inr \<lparr>portfolioData = [], stockPrices = None,
               console = [''Error fetching stock prices:'']\<rparr>
      | Response ok status body \<Rightarrow>
          (case (ok, body) of
             (True, Json data) \<Rightarrow>
               (case calculatePortfolioValue parse GOOGL data of
                  Inl e \<Rightarrow> Inl e
                | Inr portfolioValues \<Rightarrow>
                    Inr \<lparr>portfolioData = portfolioValues, stockPrices = Some data,
                         console = []\<rparr>)
           | _ \<Rightarrow>
               Inr \<lparr>portfolioData = [], stockPrices = None,
                    console = [''Error fetching stock prices:'']\<rparr>))"
  by (simp add: runChart_def derivePortfolio_def fetchStockPrices_def initialState_def
      consoleError_def split: FetchOutcome.splits Body.splits sum.splits)

theorem derivation_throws_counterexample:
  "runChart isoParse
     (Response True 200 (Json [(''10000000000000'', \<lparr>close = 1, timestamp = 10000000000000\<rparr>)]))
   = Inl RangeError"
  by code_simp




text \<open>
  C10 (amended). If the transactions list holds no Buy and no negative quantity (in
  particular if it is empty), \<open>calculatePortfolioValue\<close> returns the empty sequence
  for every prices mapping whose timestamps are in the range of Date, and throws the
  RangeError of \<open>formatDate\<close> otherwise.
\<close>

theorem no_buy_no_points:
  assumes "list_all (\<lambda>t. action t \<noteq> B \<and> 0 \<le> quantity t) txs"
  shows "calculatePortfolioValue parse txs prices =
     (if list_all (\<lambda>(epoch, p). TimeClip (timestamp p * 1000) \<noteq> None) prices
      then Inr [] else Inl RangeError)"
proof -
  have empty: "walkFrom txs obj 0 ds = []" for obj ds
    using dayDelta_sells [OF assms] by (intro walkFrom_never_positive) simp_all
  show ?thesis
  proof (cases "formatStockPrices prices []")
    case (Inl e)
    with formatStockPrices_Inr [of prices "[]"]
    have "\<not> list_all (\<lambda>(epoch, p). TimeClip (timestamp p * 1000) \<noteq> None) prices" by auto
    with Inl show ?thesis by (cases e) (simp add: calculatePortfolioValue_walk)
  next
    case (Inr obj)
    with formatStockPrices_Inr [of prices "[]"]
    have "list_all (\<lambda>(epoch, p). TimeClip (timestamp p * 1000) \<noteq> None) prices" by auto
    with Inr show ?thesis by (simp add: calculatePortfolioValue_walk empty)
  qed
qed

theorem no_buy_no_points_witness:
  "list_all (\<lambda>t. action t \<noteq> B \<and> 0 \<le> quantity t) [trade S ''2021-01-04'' 5]
   \<and> calculatePortfolioValue isoParse [trade S ''2021-01-04'' 5]
       [(''1609718400'', \<lparr>close = 100, timestamp = 1609718400\<rparr>)]
     = Inr []"
proof -
  have sells: "list_all (\<lambda>t. action t \<noteq> B \<and> 0 \<le> quantity t) [trade S ''2021-01-04'' 5]"
    by (simp add: trade_def)
  have range: "TimeClip (1609718400 * 1000) \<noteq> None" by (simp add: TimeClip_def)
  from no_buy_no_points [OF sells, of isoParse
      "[(''1609718400'', \<lparr>close = 100, timestamp = 1609718400\<rparr>)]"] sells range
  show ?thesis by simp
qed

theorem sell_of_negative_quantity_counterexample:
  "calculatePortfolioValue isoParse [trade S ''2021-01-04'' (- 5)]
       [(''1609718400'', \<lparr>close = 100, timestamp = 1609718400\<rparr>)]
   = Inr [\<lparr>date = ''2021-01-04'', value = Some 500\<rparr>]"
  by code_simp

end
